theory Spec2Isabelle
  imports Main "HOL-Library.Sublist" "HOL-Library.Log_Nat"
begin

section \<open>Python strings\<close>

text \<open>
  A Python \<open>str\<close> is modelled as a \<^typ>\<open>string\<close>: a list of characters, each read
  as the code point of the same number (0 to 255). The classes below are Python's for
  these code points: \<open>str.isspace\<close> (also what \<open>\s\<close> matches in a \<open>str\<close> pattern and
  what \<open>str.strip()\<close> removes), the decimal digits (\<open>\d\<close>), the word characters
  (\<open>\w\<close>: alphanumerics and the underscore) and \<open>str.lower()\<close>.
\<close>

definition code_point :: "char \<Rightarrow> nat" where
  "code_point c = of_char c"

definition is_space :: "char \<Rightarrow> bool" where
  "is_space c =
     (let n = code_point c
      in (9 \<le> n \<and> n \<le> 13) \<or> (28 \<le> n \<and> n \<le> 32) \<or> n = 133 \<or> n = 160)"

definition is_digit :: "char \<Rightarrow> bool" where
  "is_digit c = (let n = code_point c in 48 \<le> n \<and> n \<le> 57)"

definition is_word :: "char \<Rightarrow> bool" where
  "is_word c =
     (let n = code_point c
      in (48 \<le> n \<and> n \<le> 57) \<or> (65 \<le> n \<and> n \<le> 90) \<or> n = 95 \<or> (97 \<le> n \<and> n \<le> 122)
         \<or> n = 170 \<or> n = 178 \<or> n = 179 \<or> n = 181 \<or> n = 185 \<or> n = 186
         \<or> (188 \<le> n \<and> n \<le> 190) \<or> (192 \<le> n \<and> n \<le> 214) \<or> (216 \<le> n \<and> n \<le> 246)
         \<or> 248 \<le> n)"

definition lower_char :: "char \<Rightarrow> char" where
  "lower_char c =
     (let n = code_point c
      in if (65 \<le> n \<and> n \<le> 90) \<or> (192 \<le> n \<and> n \<le> 214) \<or> (216 \<le> n \<and> n \<le> 222)
         then char_of (n + 32) else c)"

definition py_lower :: "string \<Rightarrow> string" where
  "py_lower s = map lower_char s"

definition strip_with :: "(char \<Rightarrow> bool) \<Rightarrow> string \<Rightarrow> string" where
  "strip_with p s = rev (dropWhile p (rev (dropWhile p s)))"

definition py_strip :: "string \<Rightarrow> string" where
  "py_strip s = strip_with is_space s"

text \<open>\<open>s.replace(c, "")\<close> for a one-character \<open>c\<close>.\<close>

definition remove_char :: "char \<Rightarrow> string \<Rightarrow> string" where
  "remove_char c s = filter (\<lambda>x. x \<noteq> c) s"

text \<open>\<open>sub in s\<close>: \<open>sub\<close> occurs in \<open>s\<close> as a contiguous run.\<close>

fun py_in :: "string \<Rightarrow> string \<Rightarrow> bool" where
  "py_in sub [] = (sub = [])"
| "py_in sub (c # cs) = (if prefix sub (c # cs) then True else py_in sub cs)"

text \<open>\<open>s.split(sep)\<close> for a one-character separator: always at least one field.\<close>

fun py_split :: "char \<Rightarrow> string \<Rightarrow> string list" where
  "py_split sep [] = [[]]"
| "py_split sep (c # cs) =
     (if c = sep then [] # py_split sep cs
      else (case py_split sep cs of f # fs \<Rightarrow> (c # f) # fs | [] \<Rightarrow> [[c]]))"

definition digits_value :: "string \<Rightarrow> int" where
  "digits_value s = foldl (\<lambda>a c. 10 * a + (int (code_point c) - 48)) 0 s"

text \<open>\<open>str(n)\<close> for an integer \<open>n\<close>; \<open>str_nat\<close> writes the digits of one that is not negative.\<close>

definition digit_char :: "int \<Rightarrow> char" where
  "digit_char d = ''0123456789'' ! nat d"

function str_nat :: "int \<Rightarrow> string" where
  "str_nat n = (if n < 10 then [digit_char n] else str_nat (n div 10) @ [digit_char (n mod 10)])"
  by pat_completeness auto
termination
  by (relation "measure nat") auto

definition str_int :: "int \<Rightarrow> string" where
  "str_int i = (if i < 0 then CHR ''-'' # str_nat (- i) else str_nat i)"

section \<open>Python floats\<close>

text \<open>
  A Python \<open>float\<close> is an IEEE 754 binary64 number. A finite one is modelled by the
  rational number it denotes (the sign of zero is dropped: no operation below reads
  it). \<open>round_double\<close> rounds a rational to the nearest binary64 number, ties to the
  even significand, as the conversion from a decimal string and every arithmetic
  operation do; a result of \<open>2 ^ 1024\<close> or more is infinite (the rounded value
  \<open>m * 2 ^ (e - 52)\<close> reaches it when \<open>e\<close> exceeds 1023 or the significand \<open>m\<close> rounds up
  to \<open>2 ^ 53\<close> at \<open>e = 1023\<close>).
\<close>

datatype pyfloat = Finite rat | PInf | NInf | NaN

definition round_half_even :: "rat \<Rightarrow> int" where
  "round_half_even y =
     (let f = \<lfloor>y\<rfloor>; r = y - of_int f
      in if r < 1 / 2 then f else if 1 / 2 < r then f + 1 else if even f then f else f + 1)"

text \<open>\<open>ilog2 a\<close> is the floor of the binary logarithm of a positive rational.\<close>

definition ilog2 :: "rat \<Rightarrow> int" where
  "ilog2 a =
     (case quotient_of a of (p, q) \<Rightarrow>
        let d = bitlen p - bitlen q in if 2 powi d \<le> a then d else d - 1)"

definition round_double :: "rat \<Rightarrow> pyfloat" where
  "round_double x =
     (if x = 0 then Finite 0
      else let a = \<bar>x\<bar>;
               e = max (ilog2 a) (- 1022);
               u = 2 powi (e - 52);
               m = round_half_even (a / u)
           in if 1023 < e \<or> (e = 1023 \<and> m = 2 ^ 53) then (if x < 0 then NInf else PInf)
              else Finite (if x < 0 then - (of_int m * u) else of_int m * u))"

definition fneg :: "pyfloat \<Rightarrow> pyfloat" where
  "fneg a = (case a of Finite x \<Rightarrow> Finite (- x) | PInf \<Rightarrow> NInf | NInf \<Rightarrow> PInf | NaN \<Rightarrow> NaN)"

definition fabs :: "pyfloat \<Rightarrow> pyfloat" where
  "fabs a = (case a of Finite x \<Rightarrow> Finite \<bar>x\<bar> | PInf \<Rightarrow> PInf | NInf \<Rightarrow> PInf | NaN \<Rightarrow> NaN)"

fun fadd :: "pyfloat \<Rightarrow> pyfloat \<Rightarrow> pyfloat" where
  "fadd NaN b = NaN"
| "fadd a NaN = NaN"
| "fadd (Finite x) (Finite y) = round_double (x + y)"
| "fadd PInf NInf = NaN"
| "fadd NInf PInf = NaN"
| "fadd PInf b = PInf"
| "fadd NInf b = NInf"
| "fadd a PInf = PInf"
| "fadd a NInf = NInf"

definition fsub :: "pyfloat \<Rightarrow> pyfloat \<Rightarrow> pyfloat" where
  "fsub a b = fadd a (fneg b)"

text \<open>\<open>a < b\<close> on floats: false whenever an operand is not a number.\<close>

fun flt :: "pyfloat \<Rightarrow> pyfloat \<Rightarrow> bool" where
  "flt NaN b = False"
| "flt a NaN = False"
| "flt (Finite x) (Finite y) = (x < y)"
| "flt a NInf = False"
| "flt PInf b = False"
| "flt NInf b = True"
| "flt a PInf = True"

text \<open>Division by a finite nonzero float.\<close>

definition fdiv_finite :: "pyfloat \<Rightarrow> rat \<Rightarrow> pyfloat" where
  "fdiv_finite a d =
     (case a of Finite x \<Rightarrow> round_double (x / d)
      | PInf \<Rightarrow> (if 0 < d then PInf else NInf)
      | NInf \<Rightarrow> (if 0 < d then NInf else PInf)
      | NaN \<Rightarrow> NaN)"

subsection \<open>\<open>float(s)\<close> and \<open>int(s)\<close> on a string\<close>

text \<open>
  Both constructors first turn a non-ASCII white space character into a blank, drop the
  ASCII white space at both ends, and accept single underscores between digits. A string
  they reject raises \<open>ValueError\<close>: the result \<open>None\<close>.
\<close>

definition ascii_space :: "char \<Rightarrow> bool" where
  "ascii_space c = (let n = code_point c in (9 \<le> n \<and> n \<le> 13) \<or> n = 32)"

definition to_ascii_space :: "string \<Rightarrow> string" where
  "to_ascii_space s = map (\<lambda>c. if 128 \<le> code_point c \<and> is_space c then CHR '' '' else c) s"

fun underscores_ok :: "char \<Rightarrow> string \<Rightarrow> bool" where
  "underscores_ok prev [] = (prev \<noteq> CHR ''_'')"
| "underscores_ok prev (c # cs) =
     (if c = CHR ''_'' then is_digit prev \<and> underscores_ok c cs
      else if prev = CHR ''_'' then is_digit c \<and> underscores_ok c cs
      else underscores_ok c cs)"

definition number_text :: "string \<Rightarrow> string option" where
  "number_text s =
     (let t = strip_with ascii_space (to_ascii_space s)
      in if underscores_ok (CHR 0x00) t then Some (remove_char CHR ''_'' t) else None)"

definition split_sign :: "string \<Rightarrow> bool \<times> string" where
  "split_sign s =
     (case s of [] \<Rightarrow> (False, [])
      | c # r \<Rightarrow> if c = CHR ''-'' then (True, r) else if c = CHR ''+'' then (False, r) else (False, s))"

definition parse_exponent :: "string \<Rightarrow> int option" where
  "parse_exponent s =
     (case s of [] \<Rightarrow> Some 0
      | c # r \<Rightarrow>
          if c = CHR ''e'' \<or> c = CHR ''E''
          then (case split_sign r of (neg, d) \<Rightarrow>
                  if d \<noteq> [] \<and> list_all is_digit d
                  then Some (if neg then - digits_value d else digits_value d)
                  else None)
          else None)"

definition parse_decimal :: "string \<Rightarrow> rat option" where
  "parse_decimal s =
     (let ip = takeWhile is_digit s;
          r1 = dropWhile is_digit s;
          fp = (case r1 of [] \<Rightarrow> [] | c # t \<Rightarrow> if c = CHR ''.'' then takeWhile is_digit t else []);
          r2 = (case r1 of [] \<Rightarrow> [] | c # t \<Rightarrow> if c = CHR ''.'' then dropWhile is_digit t else r1)
      in if ip = [] \<and> fp = [] then None
         else (case parse_exponent r2 of None \<Rightarrow> None
               | Some ex \<Rightarrow> Some (of_int (digits_value (ip @ fp)) * 10 powi (ex - int (length fp)))))"

definition parse_float_body :: "string \<Rightarrow> pyfloat option" where
  "parse_float_body s =
     (case split_sign s of (neg, b) \<Rightarrow>
        let l = py_lower b
        in if l = ''inf'' \<or> l = ''infinity'' then Some (if neg then NInf else PInf)
           else if l = ''nan'' then Some NaN
           else (case parse_decimal b of None \<Rightarrow> None
                 | Some v \<Rightarrow> Some (round_double (if neg then - v else v))))"

definition py_float :: "string \<Rightarrow> pyfloat option" where
  "py_float s = (case number_text s of None \<Rightarrow> None | Some t \<Rightarrow> parse_float_body t)"

definition py_int :: "string \<Rightarrow> int option" where
  "py_int s =
     (case number_text s of None \<Rightarrow> None
      | Some t \<Rightarrow>
          (case split_sign t of (neg, d) \<Rightarrow>
             if d \<noteq> [] \<and> list_all is_digit d
             then Some (if neg then - digits_value d else digits_value d)
             else None))"

text \<open>\<open>f"{a:.2f}"\<close>: two decimals, the exact binary value rounded half to even.\<close>

definition format_2f :: "pyfloat \<Rightarrow> string" where
  "format_2f a =
     (case a of
        Finite x \<Rightarrow>
          (let n = round_half_even (\<bar>x\<bar> * 100)
           in (if x < 0 then ''-'' else []) @ str_nat (n div 100) @ ''.''
              @ [digit_char (n mod 100 div 10), digit_char (n mod 10)])
      | PInf \<Rightarrow> ''inf'' | NInf \<Rightarrow> ''-inf'' | NaN \<Rightarrow> ''nan'')"

section \<open>The answer comparator\<close>

definition clean :: "string \<Rightarrow> string" where
  "clean s = remove_char (CHR 0x0D) (remove_char (CHR 0x0A) (remove_char CHR '' '' (py_strip s)))"

definition true_vals :: "string list" where
  "true_vals = [''true'', ''1'', ''yes'']"

definition false_vals :: "string list" where
  "false_vals = [''false'', ''0'', ''no'']"

text \<open>
  The inner \<open>try\<close> of \<open>compare_answers\<close>: \<open>None\<close> when \<open>float\<close> raises \<open>ValueError\<close> on
  either string, else the verdict \<open>abs(actual_num - expected_num) < 0.01\<close>.
\<close>

definition numeric_comparison :: "string \<Rightarrow> string \<Rightarrow> bool option" where
  "numeric_comparison actual_clean expected_clean =
     (case py_float actual_clean of None \<Rightarrow> None
      | Some actual_num \<Rightarrow>
          (case py_float expected_clean of None \<Rightarrow> None
           | Some expected_num \<Rightarrow>
               Some (flt (fabs (fsub actual_num expected_num)) (round_double (1 / 100)))))"

definition compare_answers :: "string \<Rightarrow> string \<Rightarrow> bool" where
  "compare_answers actual expected =
     (let actual_clean = clean actual;
          expected_clean = clean expected
      in if py_lower actual_clean = py_lower expected_clean then True
         else (case numeric_comparison actual_clean expected_clean of
                 Some is_close \<Rightarrow> is_close
               | None \<Rightarrow>
                   if py_lower actual_clean \<in> set true_vals \<and> py_lower expected_clean \<in> set true_vals
                   then True
                   else if py_lower actual_clean \<in> set false_vals
                           \<and> py_lower expected_clean \<in> set false_vals
                   then True
                   else if py_in expected_clean actual_clean then True
                   else False))"

text \<open>
  The ordered strategy in the words of the specification: a rule either decides
  (\<open>Some\<close> verdict) or does not apply (\<open>None\<close>); the first rule that applies wins, and
  the answer is no match when none applies.
\<close>

type_synonym rule = "string \<Rightarrow> string \<Rightarrow> bool option"






section \<open>The execution sandbox\<close>

text \<open>
  The submitted code is run by the Python interpreter, and once it runs it decides what
  every later evaluation of an object it made does. The model takes the interpreter as a
  parameter: each evaluation the function makes of something the submission controls is
  an outcome given by that parameter. An evaluation finishes with a value, or raises an
  exception that the next \<open>except Exception\<close> catches, or escapes: what it raises passes
  every handler (\<open>SystemExit\<close>, \<open>KeyboardInterrupt\<close>, or any exception once the
  submission has rebound the name \<open>Exception\<close>), or it never finishes.
\<close>

datatype ('a, 'e) outcome = Done 'a | Raises 'e | Escapes

text \<open>
  An exception object is read in three ways: \<open>str(e)\<close> (lines 852, 912 and 957), the
  splicing of that message into an f-string (lines 852 and 916: the message may be an
  instance of a subclass of \<open>str\<close> with a \<open>__format__\<close> of its own), and the formatting
  of the exception itself in the f-string of line 953. Each may raise in turn.
\<close>

datatype exc =
  Exc (message: "(string, exc) outcome") (spliced: "(unit, exc) outcome")
      (formatted: "(unit, exc) outcome")

text \<open>An exception of the library: its message is a plain string.\<close>

definition plain_error :: "string \<Rightarrow> exc" where
  "plain_error msg = Exc (Done msg) (Done ()) (Done ())"

text \<open>
  The object an entry point returns is read by \<open>result is not None\<close> and by
  \<open>str(result)\<close>, which may raise.
\<close>

datatype pyobj = PyNone | PyObj "(string, exc) outcome"

definition py_str :: "pyobj \<Rightarrow> (string, exc) outcome" where
  "py_str result = (case result of PyNone \<Rightarrow> Done ''None'' | PyObj rendering \<Rightarrow> rendering)"

datatype pyval = VBool bool | VStr string | VNone | VOther

type_synonym dict = "(string \<times> pyval) list"

text \<open>
  What the interpreter does from line 876 on, in the order of the source:
  \<^item> \<open>returned\<close>: line 876, the lookup and the call of the entry point under the
    redirected streams;
  \<^item> \<open>printed\<close> and \<open>diagnostics\<close>: \<open>getvalue()\<close> of the two captures at lines 879 and
    880 (a capture that the submission closed raises \<open>ValueError\<close>);
  \<^item> \<open>logged\<close>: the three calls of the logger at lines 895 to 897, which format the
    result, its type and the actual output;
  \<^item> \<open>verdict\<close>: the call \<open>compare_answers(actual_output, expected_answer)\<close> of line
    900. \<open>None\<close> stands for the ordinary case: the name is still bound to the function
    of this module and the actual output is an exact \<open>str\<close>, so the call gives what
    \<open>compare_answers\<close> computes. \<open>Some\<close> gives the outcome otherwise (the submission
    rebound the name, or \<open>str(result)\<close> is an instance of a subclass of \<open>str\<close>);
  \<^item> \<open>fault_output\<close> and \<open>fault_actual\<close>: \<open>getvalue()\<close> of the stdout capture at lines
    915 and 919, in the handler.
\<close>

record invocation =
  returned :: "(pyobj, exc) outcome"
  printed :: "(string, exc) outcome"
  diagnostics :: "(string, exc) outcome"
  logged :: "(unit, exc) outcome"
  verdict :: "(pyval, exc) outcome option"
  fault_output :: "(string, exc) outcome"
  fault_actual :: "(string, exc) outcome"

text \<open>
  \<open>exec(code, safe_globals)\<close> gives the final \<open>safe_globals\<close>. The test
  \<open>func_name not in safe_globals\<close> of line 859 compares keys, which may raise; when
  it finishes it tells whether the name is bound, and then what calling the bound
  object does.
\<close>

type_synonym namespace = "string \<Rightarrow> (invocation option, exc) outcome"

type_synonym interpreter = "string \<Rightarrow> (namespace, exc) outcome"

subsection \<open>\<open>re.search(r'def\s+(\w+)\s*\(\s*\)', code)\<close>\<close>

text \<open>
  \<open>match_def_at s\<close> matches the pattern at the start of \<open>s\<close> and gives group 1. The
  classes \<open>\s\<close> and \<open>\w\<close> are disjoint and hold neither parenthesis, so each greedy
  run is the only one that can lead to a match.
\<close>

definition strip_prefix :: "string \<Rightarrow> string \<Rightarrow> string option" where
  "strip_prefix p s = (if prefix p s then Some (drop (length p) s) else None)"

definition match_def_at :: "string \<Rightarrow> string option" where
  "match_def_at s =
     (case strip_prefix ''def'' s of None \<Rightarrow> None
      | Some r1 \<Rightarrow>
          let r2 = dropWhile is_space r1;
              name = takeWhile is_word r2;
              r3 = dropWhile is_space (dropWhile is_word r2)
          in if takeWhile is_space r1 = [] \<or> name = [] then None
             else (case r3 of [] \<Rightarrow> None
                   | c # r4 \<Rightarrow>
                       if c = CHR ''(''
                       then (case dropWhile is_space r4 of [] \<Rightarrow> None
                             | d # r5 \<Rightarrow> if d = CHR '')'' then Some name else None)
                       else None))"

fun func_match :: "string \<Rightarrow> string option" where
  "func_match [] = None"
| "func_match (c # cs) =
     (case match_def_at (c # cs) of Some name \<Rightarrow> Some name | None \<Rightarrow> func_match cs)"

text \<open>
  The shape in words: \<open>def\<close>, white space, a name of word characters, optional white
  space, an opening parenthesis, optional white space, a closing parenthesis.
\<close>

definition def_shape :: "string \<Rightarrow> string \<Rightarrow> bool" where
  "def_shape s name =
     (\<exists>ws1 ws2 ws3 rest.
        s = ''def'' @ ws1 @ name @ ws2 @ ''('' @ ws3 @ '')'' @ rest
        \<and> ws1 \<noteq> [] \<and> list_all is_space ws1 \<and> name \<noteq> [] \<and> list_all is_word name
        \<and> list_all is_space ws2 \<and> list_all is_space ws3)"

definition has_def_shape :: "string \<Rightarrow> bool" where
  "has_def_shape code = (\<exists>i name. i \<le> length code \<and> def_shape (drop i code) name)"

text \<open>The first occurrence: one starts at offset \<open>i\<close> and none starts before.\<close>

definition first_def_shape :: "string \<Rightarrow> nat \<Rightarrow> string \<Rightarrow> bool" where
  "first_def_shape code i name =
     (i \<le> length code \<and> def_shape (drop i code) name
      \<and> \<not> (\<exists>j n. j < i \<and> def_shape (drop j code) n))"

subsection \<open>\<open>execute_code_no_input\<close>\<close>

text \<open>\<open>try: x ... except Exception as e: handler\<close>, followed by \<open>rest\<close>.\<close>

definition attempt ::
  "('a, exc) outcome \<Rightarrow> (exc \<Rightarrow> ('b, exc) outcome) \<Rightarrow> ('a \<Rightarrow> ('b, exc) outcome) \<Rightarrow> ('b, exc) outcome" where
  "attempt x handler rest =
     (case x of Done v \<Rightarrow> rest v | Raises e \<Rightarrow> handler e | Escapes \<Rightarrow> Escapes)"

text \<open>
  Lines 911 to 920, the handler of the inner \<open>try\<close>. What raises inside a handler is
  not caught by it: it goes on to the outer \<open>try\<close>.
\<close>

definition runtime_fault :: "invocation \<Rightarrow> string \<Rightarrow> exc \<Rightarrow> (dict, exc) outcome" where
  "runtime_fault call expected_answer e =
     attempt (message e) Raises (\<lambda>error_msg.
     attempt (fault_output call) Raises (\<lambda>output.
     attempt (spliced e) Raises (\<lambda>u.
     attempt (fault_actual call) Raises (\<lambda>actual.
       Done [(''success'', VBool False),
             (''output'', VStr (py_strip output)),
             (''error'', VStr (''Runtime error: '' @ error_msg)),
             (''passed'', VBool False),
             (''expected'', VStr expected_answer),
             (''actual'', VStr (py_strip actual))]))))"

text \<open>Lines 869 to 920: the call of the entry point and what is made of it.\<close>

definition run_entry :: "invocation \<Rightarrow> string \<Rightarrow> (dict, exc) outcome" where
  "run_entry call expected_answer =
     (let handler = runtime_fault call expected_answer
      in attempt (returned call) handler (\<lambda>result.
         attempt (printed call) handler (\<lambda>out.
         attempt (diagnostics call) handler (\<lambda>err.
           let printed_output = py_strip out;
               error_output = py_strip err
           in if error_output \<noteq> []
              then attempt (if printed_output \<noteq> [] then Done printed_output else py_str result)
                     handler (\<lambda>actual.
                       Done [(''success'', VBool False),
                             (''output'', VStr printed_output),
                             (''error'', VStr error_output),
                             (''passed'', VBool False),
                             (''expected'', VStr expected_answer),
                             (''actual'', VStr actual)])
              else attempt (if result \<noteq> PyNone then py_str result else Done printed_output)
                     handler (\<lambda>actual_output.
                   attempt (logged call) handler (\<lambda>u.
                   attempt (case verdict call of
                              None \<Rightarrow> Done (VBool (compare_answers actual_output expected_answer))
                            | Some other \<Rightarrow> other)
                     handler (\<lambda>passed.
                       Done [(''success'', VBool True),
                             (''output'', VStr actual_output),
                             (''expected'', VStr expected_answer),
                             (''actual'', VStr actual_output),
                             (''error'', VNone),
                             (''passed'', passed)])))))))"

text \<open>
  The branch \<open>language == "python"\<close>, lines 796 to 920. \<open>Raises\<close> is an exception that
  reaches the outer \<open>try\<close>.
\<close>

definition execute_python :: "interpreter \<Rightarrow> string \<Rightarrow> string \<Rightarrow> (dict, exc) outcome" where
  "execute_python exec code expected_answer =
     (case func_match code of
        None \<Rightarrow>
          Done [(''success'', VBool False),
                (''output'', VStr []),
                (''error'', VStr ''Function must have NO parameters: def solution():''),
                (''passed'', VBool False),
                (''expected'', VStr expected_answer),
                (''actual'', VStr [])]
      | Some func_name \<Rightarrow>
          attempt (exec code)
            (\<lambda>e. attempt (message e) Raises (\<lambda>error_msg.
                  attempt (spliced e) Raises (\<lambda>u.
                    Done [(''success'', VBool False),
                          (''output'', VStr []),
                          (''error'', VStr (''Code compilation error: '' @ error_msg)),
                          (''passed'', VBool False),
                          (''expected'', VStr expected_answer),
                          (''actual'', VStr [])])))
            (\<lambda>safe_globals.
               attempt (safe_globals func_name) Raises (\<lambda>bound.
                 case bound of
                   None \<Rightarrow>
                     Done [(''success'', VBool False),
                           (''output'', VStr []),
                           (''error'', VStr (''Function '' @ [CHR 0x27] @ func_name @ [CHR 0x27]
                                             @ '' not found in code'')),
                           (''passed'', VBool False),
                           (''expected'', VStr expected_answer),
                           (''actual'', VStr [])]
                 | Some call \<Rightarrow> run_entry call expected_answer)))"

text \<open>
  The whole function. The handler of the outer \<open>try\<close> (lines 952 to 961) formats the
  exception for the logger and takes its message; what raises there leaves the
  function.
\<close>

definition execute_code_no_input ::
  "interpreter \<Rightarrow> string \<Rightarrow> string \<Rightarrow> string \<Rightarrow> (dict, exc) outcome" where
  "execute_code_no_input exec code expected_answer language =
     attempt
       (if language = ''python'' then execute_python exec code expected_answer
        else if language = ''javascript''
        then Done [(''success'', VBool False),
                   (''output'', VStr []),
                   (''error'', VStr ''JavaScript execution not implemented yet''),
                   (''passed'', VBool False),
                   (''expected'', VStr expected_answer),
                   (''actual'', VStr [])]
        else if language = ''java''
        then Done [(''success'', VBool False),
                   (''output'', VStr []),
                   (''error'', VStr ''Java execution not implemented yet''),
                   (''passed'', VBool False),
                   (''expected'', VStr expected_answer),
                   (''actual'', VStr [])]
        else Done [(''success'', VBool False),
                   (''output'', VStr []),
                   (''error'', VStr (''Unsupported language: '' @ language)),
                   (''passed'', VBool False),
                   (''expected'', VStr expected_answer),
                   (''actual'', VStr [])])
       (\<lambda>e. attempt (formatted e) Raises (\<lambda>u.
             attempt (message e) Raises (\<lambda>error_msg.
               Done [(''success'', VBool False),
                     (''output'', VStr []),
                     (''error'', VStr error_msg),
                     (''passed'', VBool False),
                     (''expected'', VStr expected_answer),
                     (''actual'', VStr [])])))
       Done"

text \<open>
  What a caller reads of a result: the six keys, each once, and the expected answer it
  passed in.
\<close>

definition fully_populated :: "string \<Rightarrow> dict \<Rightarrow> bool" where
  "fully_populated expected_answer d =
     (set (map fst d) = {''success'', ''output'', ''error'', ''passed'', ''expected'', ''actual''}
      \<and> distinct (map fst d)
      \<and> map_of d ''expected'' = Some (VStr expected_answer))"

text \<open>
  Interpreters and calls for the examples. \<open>bound_interpreter\<close>: \<open>exec\<close> leaves the given
  names bound. \<open>stuck_interpreter\<close>: \<open>exec\<close> never finishes. \<open>broken_interpreter\<close>: \<open>exec\<close>
  raises. \<open>ordinary_call\<close>: the entry point writes the two texts, returns the object,
  and leaves everything else as the module made it. \<open>faulting_call\<close>: it writes the
  two texts and raises.
\<close>

definition bound_interpreter :: "(string \<times> invocation) list \<Rightarrow> interpreter" where
  "bound_interpreter bindings = (\<lambda>code. Done (\<lambda>name. Done (map_of bindings name)))"

definition stuck_interpreter :: interpreter where
  "stuck_interpreter = (\<lambda>code. Escapes)"

definition broken_interpreter :: "exc \<Rightarrow> interpreter" where
  "broken_interpreter e = (\<lambda>code. Raises e)"

definition ordinary_call :: "string \<Rightarrow> string \<Rightarrow> pyobj \<Rightarrow> invocation" where
  "ordinary_call out err result =
     \<lparr>returned = Done result, printed = Done out, diagnostics = Done err, logged = Done (),
      verdict = None, fault_output = Done out, fault_actual = Done out\<rparr>"

definition faulting_call :: "string \<Rightarrow> string \<Rightarrow> exc \<Rightarrow> invocation" where
  "faulting_call out err e =
     \<lparr>returned = Raises e, printed = Done out, diagnostics = Done err, logged = Done (),
      verdict = None, fault_output = Done out, fault_actual = Done out\<rparr>"

text \<open>The shape of a result that reports a failure.\<close>

definition failure_result :: "string \<Rightarrow> dict \<Rightarrow> bool" where
  "failure_result expected_answer d =
     (\<exists>output error actual.
        d = [(''success'', VBool False), (''output'', VStr output), (''error'', VStr error),
             (''passed'', VBool False), (''expected'', VStr expected_answer),
             (''actual'', VStr actual)])"

section \<open>The answer validator\<close>

text \<open>
  \<open>problem_data\<close> is a dictionary: a map from keys to values. The model covers the
  problems whose description and expected answer are strings, as the prompt of the
  generator asks for. Three things that \<open>validate_and_fix_problem\<close> leaves to the
  interpreter depend on its version and on the platform, and are parameters of the
  model:
  \<^item> \<open>pow_half_floor n\<close>: \<open>int(n**0.5)\<close>, computed in floating point by the platform's
    \<open>pow\<close>; \<open>None\<close> when the integer is too large to convert (\<open>OverflowError\<close>);
  \<^item> \<open>sum_floats\<close>: \<open>sum\<close> over a list of floats (added from the left up to Python
    3.11, with compensated rounding errors from 3.12 on);
  \<^item> \<open>max_str_digits\<close>: the limit on the digits of an integer converted from or to a
    string (4300 by default from Python 3.11 on), \<open>None\<close> when there is none; a
    conversion beyond it raises \<open>ValueError\<close>.
\<close>

record platform =
  pow_half_floor :: "int \<Rightarrow> int option"
  sum_floats :: "pyfloat list \<Rightarrow> pyfloat"
  max_str_digits :: "nat option"

type_synonym problem = "string \<Rightarrow> string option"

definition get_or_empty :: "problem \<Rightarrow> string \<Rightarrow> string" where
  "get_or_empty problem_data key = (case problem_data key of None \<Rightarrow> [] | Some v \<Rightarrow> v)"

definition within_digit_limit :: "platform \<Rightarrow> nat \<Rightarrow> bool" where
  "within_digit_limit p digits = (case max_str_digits p of None \<Rightarrow> True | Some m \<Rightarrow> digits \<le> m)"

text \<open>\<open>int(s)\<close> and \<open>str(n)\<close> under the limit.\<close>

definition int_of_str :: "platform \<Rightarrow> string \<Rightarrow> int option" where
  "int_of_str p s =
     (if within_digit_limit p (length (filter is_digit s)) then py_int s else None)"

definition str_of_int :: "platform \<Rightarrow> int \<Rightarrow> string option" where
  "str_of_int p n =
     (if within_digit_limit p (length (str_nat \<bar>n\<bar>)) then Some (str_int n) else None)"

subsection \<open>The bracketed list\<close>

text \<open>
  \<open>re.findall(r'\[([...]+)\]', description)[0]\<close> for a character class \<open>p\<close> that holds
  no bracket: the first opening bracket followed by a non-empty run of \<open>p\<close> and a
  closing bracket; \<open>None\<close> when \<open>findall\<close> gives the empty list.
\<close>

fun first_bracket :: "(char \<Rightarrow> bool) \<Rightarrow> string \<Rightarrow> string option" where
  "first_bracket p [] = None"
| "first_bracket p (c # cs) =
     (if c = CHR ''['' \<and> takeWhile p cs \<noteq> []
         \<and> (case dropWhile p cs of [] \<Rightarrow> False | d # r \<Rightarrow> d = CHR '']'')
      then Some (takeWhile p cs)
      else first_bracket p cs)"

text \<open>The classes \<open>[\d\s.,]\<close> and \<open>[\d\s.,\-]\<close>.\<close>

definition list_char :: "char \<Rightarrow> bool" where
  "list_char c = (is_digit c \<or> is_space c \<or> c = CHR ''.'' \<or> c = CHR '','')"

definition list_char_signed :: "char \<Rightarrow> bool" where
  "list_char_signed c = (list_char c \<or> c = CHR ''-'')"

subsection \<open>Average\<close>

text \<open>\<open>[float(x.strip()) for x in numbers_str.split(',')]\<close>; \<open>None\<close> when a field is rejected.\<close>

definition parse_floats :: "string \<Rightarrow> pyfloat list option" where
  "parse_floats numbers_str = those (map (\<lambda>x. py_float (py_strip x)) (py_split CHR '','' numbers_str))"

text \<open>
  Lines 408 and 409: \<open>sum(numbers) / len(numbers)\<close>, formatted; \<open>None\<close> when the
  division raises (\<open>ZeroDivisionError\<close>, or \<open>OverflowError\<close> for a length beyond the
  floats).
\<close>

definition average_answer :: "platform \<Rightarrow> pyfloat list \<Rightarrow> string option" where
  "average_answer p numbers =
     (case round_double (of_int (int (length numbers))) of
        Finite n \<Rightarrow>
          if n = 0 then None
          else Some (format_2f (fdiv_finite (sum_floats p numbers) n))
      | PInf \<Rightarrow> None | NInf \<Rightarrow> None | NaN \<Rightarrow> None)"

text \<open>
  Line 413, \<open>abs(float(correct_answer) - float(expected)) > 0.01\<close>; \<open>None\<close> when
  \<open>float\<close> rejects a string.
\<close>

definition exceeds_tolerance :: "string \<Rightarrow> string \<Rightarrow> bool option" where
  "exceeds_tolerance correct_answer expected =
     (case py_float correct_answer of None \<Rightarrow> None
      | Some c \<Rightarrow>
          (case py_float expected of None \<Rightarrow> None
           | Some e \<Rightarrow> Some (flt (round_double (1 / 100)) (fabs (fsub c e)))))"

subsection \<open>Range sum\<close>

text \<open>
  \<open>re.search(r'(?:between|from)\s+(\d+)\s+(?:and|to)\s+(\d+)', ...)\<close>: the two
  groups of the leftmost match. The alternatives of each group start with different
  letters, and the classes \<open>\s\<close> and \<open>\d\<close> are disjoint, so the greedy runs decide.
\<close>

definition match_range_at :: "string \<Rightarrow> (string \<times> string) option" where
  "match_range_at s =
     (case (case strip_prefix ''between'' s of Some r \<Rightarrow> Some r | None \<Rightarrow> strip_prefix ''from'' s) of
        None \<Rightarrow> None
      | Some r1 \<Rightarrow>
          let r2 = dropWhile is_space r1;
              group1 = takeWhile is_digit r2;
              r3 = dropWhile is_digit r2;
              r4 = dropWhile is_space r3
          in if takeWhile is_space r1 = [] \<or> group1 = [] \<or> takeWhile is_space r3 = [] then None
             else (case (case strip_prefix ''and'' r4 of Some r \<Rightarrow> Some r
                         | None \<Rightarrow> strip_prefix ''to'' r4) of
                     None \<Rightarrow> None
                   | Some r5 \<Rightarrow>
                       let group2 = takeWhile is_digit (dropWhile is_space r5)
                       in if takeWhile is_space r5 = [] \<or> group2 = [] then None
                          else Some (group1, group2)))"

fun search_range :: "string \<Rightarrow> (string \<times> string) option" where
  "search_range [] = None"
| "search_range (c # cs) =
     (case match_range_at (c # cs) of Some groups \<Rightarrow> Some groups | None \<Rightarrow> search_range cs)"

text \<open>\<open>is_prime\<close>, lines 435 to 439; \<open>None\<close> when \<open>n**0.5\<close> raises.\<close>

definition is_prime :: "platform \<Rightarrow> int \<Rightarrow> bool option" where
  "is_prime p n =
     (if n < 2 then Some False
      else (case pow_half_floor p n of None \<Rightarrow> None
            | Some r \<Rightarrow> Some (list_all (\<lambda>i. n mod i \<noteq> 0) [2..r])))"

text \<open>Lines 430 to 442: \<open>correct_sum\<close>, with \<open>d\<close> the description in lower case.\<close>

definition range_sum :: "platform \<Rightarrow> string \<Rightarrow> int \<Rightarrow> int \<Rightarrow> int option" where
  "range_sum p d start finish =
     (if py_in ''even'' d then Some (sum_list (filter (\<lambda>i. i mod 2 = 0) [start..finish]))
      else if py_in ''odd'' d then Some (sum_list (filter (\<lambda>i. i mod 2 = 1) [start..finish]))
      else if py_in ''prime'' d
      then (case those (map (is_prime p) [start..finish]) of None \<Rightarrow> None
            | Some flags \<Rightarrow> Some (sum_list (map fst (filter snd (zip [start..finish] flags)))))
      else Some (sum_list [start..finish]))"

subsection \<open>List extremum\<close>

definition parse_ints :: "platform \<Rightarrow> string \<Rightarrow> int list option" where
  "parse_ints p numbers_str =
     those (map (\<lambda>x. int_of_str p (py_strip x)) (py_split CHR '','' numbers_str))"

fun py_max :: "int list \<Rightarrow> int option" where
  "py_max [] = None"
| "py_max (x # xs) = Some (fold max xs x)"

fun py_min :: "int list \<Rightarrow> int option" where
  "py_min [] = None"
| "py_min (x # xs) = Some (fold min xs x)"

text \<open>
  Lines 462 to 470. The outer \<open>None\<close> is an exception; the inner \<open>None\<close> is the last
  \<open>else\<close>, which returns the problem as it is.
\<close>

definition extremum_answer :: "platform \<Rightarrow> string \<Rightarrow> int list \<Rightarrow> string option option" where
  "extremum_answer p d numbers =
     (if py_in ''second largest'' d
      then (case rev (sort (remdups numbers)) of
              [] \<Rightarrow> None
            | x # rest \<Rightarrow>
                (case rest of
                   [] \<Rightarrow> (case str_of_int p x of None \<Rightarrow> None | Some s \<Rightarrow> Some (Some s))
                 | y # r \<Rightarrow> (case str_of_int p y of None \<Rightarrow> None | Some s \<Rightarrow> Some (Some s))))
      else if py_in ''largest'' d \<or> py_in ''maximum'' d
      then (case py_max numbers of None \<Rightarrow> None
            | Some m \<Rightarrow> (case str_of_int p m of None \<Rightarrow> None | Some s \<Rightarrow> Some (Some s)))
      else if py_in ''smallest'' d \<or> py_in ''minimum'' d
      then (case py_min numbers of None \<Rightarrow> None
            | Some m \<Rightarrow> (case str_of_int p m of None \<Rightarrow> None | Some s \<Rightarrow> Some (Some s)))
      else Some None)"

subsection \<open>\<open>validate_and_fix_problem\<close>\<close>

definition validate_and_fix_problem :: "platform \<Rightarrow> problem \<Rightarrow> problem" where
  "validate_and_fix_problem p problem_data =
     (let description = get_or_empty problem_data ''description'';
          expected = get_or_empty problem_data ''expected_answer'';
          d = py_lower description
      in if py_in ''average'' d \<or> py_in ''mean'' d
         then (case first_bracket list_char description of
                 None \<Rightarrow> problem_data
               | Some numbers_text \<Rightarrow>
                   (case parse_floats (remove_char CHR '' '' numbers_text) of
                      None \<Rightarrow> problem_data
                    | Some numbers \<Rightarrow>
                        (case average_answer p numbers of
                           None \<Rightarrow> problem_data
                         | Some correct_answer \<Rightarrow>
                             (case exceeds_tolerance correct_answer expected of
                                None \<Rightarrow> problem_data
                              | Some differs \<Rightarrow>
                                  if differs
                                  then problem_data(''expected_answer'' \<mapsto> correct_answer)
                                  else problem_data))))
         else if py_in ''sum'' d \<and> py_in ''between'' d
         then (case search_range d of
                 None \<Rightarrow> problem_data
               | Some groups \<Rightarrow>
                   (case int_of_str p (fst groups) of
                      None \<Rightarrow> problem_data
                    | Some start \<Rightarrow>
                        (case int_of_str p (snd groups) of
                           None \<Rightarrow> problem_data
                         | Some finish \<Rightarrow>
                             (case range_sum p d start finish of
                                None \<Rightarrow> problem_data
                              | Some correct_sum \<Rightarrow>
                                  (case str_of_int p correct_sum of
                                     None \<Rightarrow> problem_data
                                   | Some correct_answer \<Rightarrow>
                                       if correct_answer \<noteq> expected
                                       then problem_data(''expected_answer'' \<mapsto> correct_answer)
                                       else problem_data)))))
         else if py_in ''largest'' d \<or> py_in ''smallest'' d \<or> py_in ''maximum'' d \<or> py_in ''minimum'' d
         then (case first_bracket list_char_signed description of
                 None \<Rightarrow> problem_data
               | Some numbers_text \<Rightarrow>
                   (case parse_ints p (remove_char CHR '' '' numbers_text) of
                      None \<Rightarrow> problem_data
                    | Some numbers \<Rightarrow>
                        (case extremum_answer p d numbers of
                           None \<Rightarrow> problem_data
                         | Some None \<Rightarrow> problem_data
                         | Some (Some correct_answer) \<Rightarrow>
                             if correct_answer \<noteq> expected
                             then problem_data(''expected_answer'' \<mapsto> correct_answer)
                             else problem_data)))
         else problem_data)"

subsection \<open>What the validator is to compute, in the words of the specification\<close>





text \<open>
  A platform for the examples: the floor of the exact square root, which \<open>int(n**0.5)\<close>
  equals on small integers, the floats added from the left, and the default limit on
  digits.
\<close>

fun floor_sqrt_from :: "nat \<Rightarrow> int \<Rightarrow> int" where
  "floor_sqrt_from 0 n = 0"
| "floor_sqrt_from (Suc k) n =
     (if int (Suc k) * int (Suc k) \<le> n then int (Suc k) else floor_sqrt_from k n)"

definition reference_platform :: platform where
  "reference_platform =
     \<lparr>pow_half_floor = (\<lambda>n. Some (floor_sqrt_from (nat n) n)),
      sum_floats = (\<lambda>numbers. foldl fadd (Finite 0) numbers),
      max_str_digits = Some 4300\<rparr>"

section \<open>The entry-point pattern\<close>

lemma word_not_space: "is_word c \<Longrightarrow> \<not> is_space c"
  by (auto simp: is_word_def is_space_def Let_def)

lemma paren_classes:
  "\<not> is_space CHR ''(''" "\<not> is_word CHR ''(''" "\<not> is_space CHR '')''"
  by (simp_all add: is_space_def is_word_def code_point_def)

lemma takeWhile_run: "list_all p xs \<Longrightarrow> \<not> p y \<Longrightarrow> takeWhile p (xs @ y # ys) = xs"
  by (induction xs) auto

lemma dropWhile_run: "list_all p xs \<Longrightarrow> \<not> p y \<Longrightarrow> dropWhile p (xs @ y # ys) = y # ys"
  by (induction xs) auto

lemma strip_prefix_Some: "strip_prefix p s = Some r \<longleftrightarrow> s = p @ r"
  by (auto simp: strip_prefix_def prefix_def)

lemma list_all_takeWhile: "list_all p (takeWhile p xs)"
  by (induction xs) auto

lemma match_def_at_shape: "match_def_at s = Some name \<Longrightarrow> def_shape s name"
proof -
  assume m: "match_def_at s = Some name"
  from m obtain r1 where r1: "s = ''def'' @ r1"
    by (auto simp: match_def_at_def strip_prefix_Some split: option.splits)
  then have sp: "strip_prefix ''def'' s = Some r1" by (simp add: strip_prefix_Some)
  define ws1 where "ws1 = takeWhile is_space r1"
  define r2 where "r2 = dropWhile is_space r1"
  define ws2 where "ws2 = takeWhile is_space (dropWhile is_word r2)"
  define r3 where "r3 = dropWhile is_space (dropWhile is_word r2)"
  from m sp have nm: "name = takeWhile is_word r2" and ne: "ws1 \<noteq> []" "name \<noteq> []"
    and r3': "\<exists>r4. r3 = CHR ''('' # r4 \<and> (\<exists>r5. dropWhile is_space r4 = CHR '')'' # r5)"
    by (auto simp: match_def_at_def Let_def ws1_def r2_def r3_def split: list.splits if_splits)
  then obtain r4 r5 where r4: "r3 = CHR ''('' # r4" and r5: "dropWhile is_space r4 = CHR '')'' # r5"
    by blast
  have "r1 = ws1 @ r2" by (simp add: ws1_def r2_def)
  moreover have "r2 = name @ dropWhile is_word r2" by (simp add: nm)
  moreover have "dropWhile is_word r2 = ws2 @ r3" by (simp add: ws2_def r3_def)
  moreover have "r4 = takeWhile is_space r4 @ CHR '')'' # r5" using r5 by (metis takeWhile_dropWhile_id)
  ultimately have "s = ''def'' @ ws1 @ name @ ws2 @ ''('' @ takeWhile is_space r4 @ '')'' @ r5"
    using r1 r4 by simp
  moreover have "list_all is_space ws1" "list_all is_word name" "list_all is_space ws2"
    "list_all is_space (takeWhile is_space r4)"
    by (simp_all add: ws1_def nm ws2_def list_all_takeWhile)
  ultimately show ?thesis using ne unfolding def_shape_def by blast
qed

lemma space_run_then_paren:
  "list_all is_space ws \<Longrightarrow> takeWhile is_word (ws @ CHR ''('' # r) = []"
  by (cases ws) (auto simp: paren_classes dest: word_not_space)

lemma shape_match_def_at: "def_shape s name \<Longrightarrow> match_def_at s = Some name"
proof -
  assume "def_shape s name"
  then obtain ws1 ws2 ws3 rest where
    s: "s = ''def'' @ ws1 @ name @ ws2 @ ''('' @ ws3 @ '')'' @ rest"
    and w1: "ws1 \<noteq> []" "list_all is_space ws1" and n: "name \<noteq> []" "list_all is_word name"
    and w2: "list_all is_space ws2" and w3: "list_all is_space ws3"
    unfolding def_shape_def by blast
  define r1 where "r1 = ws1 @ name @ ws2 @ ''('' @ ws3 @ '')'' @ rest"
  have sp: "strip_prefix ''def'' s = Some r1" by (simp add: strip_prefix_Some s r1_def)
  obtain c cs where nc: "name = c # cs" using n(1) by (cases name) auto
  then have c: "\<not> is_space c" using n(2) by (auto dest: word_not_space)
  have t1: "takeWhile is_space r1 = ws1"
    unfolding r1_def nc using takeWhile_run[OF w1(2) c] by simp
  have d1: "dropWhile is_space r1 = name @ ws2 @ ''('' @ ws3 @ '')'' @ rest"
    unfolding r1_def nc using dropWhile_run[OF w1(2) c] by simp
  have t2: "takeWhile is_word (name @ ws2 @ ''('' @ ws3 @ '')'' @ rest) = name"
    using n(2) space_run_then_paren[OF w2, of "ws3 @ '')'' @ rest"]
    by (simp add: takeWhile_append2 list_all_iff)
  have d2: "dropWhile is_word (name @ ws2 @ ''('' @ ws3 @ '')'' @ rest) = ws2 @ ''('' @ ws3 @ '')'' @ rest"
    using t2 by (metis append_eq_conv_conj length_append takeWhile_dropWhile_id same_append_eq)
  have d3: "dropWhile is_space (ws2 @ ''('' @ ws3 @ '')'' @ rest) = CHR ''('' # ws3 @ '')'' @ rest"
    using dropWhile_run[OF w2 paren_classes(1)] by simp
  have d4: "dropWhile is_space (ws3 @ '')'' @ rest) = CHR '')'' # rest"
    using dropWhile_run[OF w3 paren_classes(3)] by simp
  show ?thesis
    using w1(1) n(1) sp t1 d1 t2 d2 d3 d4 by (simp add: match_def_at_def Let_def)
qed

lemma match_def_at_iff: "match_def_at s = Some name \<longleftrightarrow> def_shape s name"
  using match_def_at_shape shape_match_def_at by blast

lemma def_shape_Nil: "\<not> def_shape [] name"
  by (simp add: def_shape_def)

lemma func_match_None_iff: "func_match code = None \<longleftrightarrow> \<not> has_def_shape code"
proof (induction code)
  case Nil
  then show ?case by (simp add: has_def_shape_def def_shape_Nil)
next
  case (Cons c cs)
  have split: "has_def_shape (c # cs) \<longleftrightarrow> (\<exists>n. def_shape (c # cs) n) \<or> has_def_shape cs"
  proof
    assume "has_def_shape (c # cs)"
    then obtain i n where i: "i \<le> length (c # cs)" "def_shape (drop i (c # cs)) n"
      unfolding has_def_shape_def by blast
    show "(\<exists>n. def_shape (c # cs) n) \<or> has_def_shape cs"
    proof (cases i)
      case 0
      with i show ?thesis by auto
    next
      case (Suc j)
      with i have "j \<le> length cs" "def_shape (drop j cs) n" by auto
      then show ?thesis unfolding has_def_shape_def by blast
    qed
  next
    assume "(\<exists>n. def_shape (c # cs) n) \<or> has_def_shape cs"
    then show "has_def_shape (c # cs)"
    proof
      assume "\<exists>n. def_shape (c # cs) n"
      then obtain n where "def_shape (drop 0 (c # cs)) n" by auto
      then show ?thesis unfolding has_def_shape_def by blast
    next
      assume "has_def_shape cs"
      then obtain j n where "j \<le> length cs" "def_shape (drop j cs) n"
        unfolding has_def_shape_def by blast
      then have "Suc j \<le> length (c # cs)" "def_shape (drop (Suc j) (c # cs)) n" by auto
      then show ?thesis unfolding has_def_shape_def by blast
    qed
  qed
  show ?case
  proof (cases "match_def_at (c # cs)")
    case None
    then have "\<not> (\<exists>n. def_shape (c # cs) n)" using match_def_at_iff by (metis option.distinct(1))
    with None Cons split show ?thesis by simp
  next
    case (Some n)
    then have "def_shape (c # cs) n" by (simp add: match_def_at_iff)
    with Some split show ?thesis by auto
  qed
qed

lemma func_match_first: "first_def_shape code i name \<Longrightarrow> func_match code = Some name"
proof (induction code arbitrary: i)
  case Nil
  then show ?case by (simp add: first_def_shape_def def_shape_Nil)
next
  case (Cons c cs)
  show ?case
  proof (cases i)
    case 0
    with Cons.prems have "def_shape (c # cs) name" by (simp add: first_def_shape_def)
    then show ?thesis by (simp add: shape_match_def_at)
  next
    case (Suc j)
    with Cons.prems have j: "j \<le> length cs" "def_shape (drop j cs) name"
      and none: "\<not> (\<exists>k n. k < Suc j \<and> def_shape (drop k (c # cs)) n)"
      by (auto simp: first_def_shape_def)
    from none have "\<not> (\<exists>n. def_shape (drop 0 (c # cs)) n)" by blast
    then have m: "match_def_at (c # cs) = None"
      using match_def_at_iff by (metis drop0 option.exhaust)
    have "\<not> (\<exists>k n. k < j \<and> def_shape (drop k cs) n)"
    proof
      assume "\<exists>k n. k < j \<and> def_shape (drop k cs) n"
      then obtain k n where "k < j" "def_shape (drop k cs) n" by blast
      then have "Suc k < Suc j \<and> def_shape (drop (Suc k) (c # cs)) n" by simp
      with none show False by blast
    qed
    with j have "first_def_shape cs j name" by (simp add: first_def_shape_def)
    then have "func_match cs = Some name" by (rule Cons.IH)
    with m show ?thesis by simp
  qed
qed

section \<open>The shape of every result\<close>

lemma attempt_simps [simp]:
  "attempt (Done v) handler rest = rest v"
  "attempt (Raises e) handler rest = handler e"
  "attempt Escapes handler rest = Escapes"
  by (simp_all add: attempt_def)

lemma attempt_Done:
  assumes "attempt x handler rest = Done d"
  obtains (finished) v where "x = Done v" "rest v = Done d"
        | (raised) e where "x = Raises e" "handler e = Done d"
  using assms by (cases x) auto

lemma attempt_Raises_Done:
  assumes "attempt x Raises rest = Done d"
  obtains v where "x = Done v" "rest v = Done d"
  using assms by (cases x) auto


lemma failure_result_populated: "failure_result ex d \<Longrightarrow> fully_populated ex d"
  by (auto simp: failure_result_def fully_populated_def)

lemma failure_resultI:
  "failure_result ex [(''success'', VBool False), (''output'', VStr out), (''error'', VStr err),
     (''passed'', VBool False), (''expected'', VStr ex), (''actual'', VStr act)]"
  unfolding failure_result_def by (intro exI) (rule refl)

lemma runtime_fault_Done:
  assumes "runtime_fault call ex e = Done d"
  shows "failure_result ex d"
proof -
  from assms obtain error_msg out actual where
    "d = [(''success'', VBool False), (''output'', VStr (py_strip out)),
          (''error'', VStr (''Runtime error: '' @ error_msg)), (''passed'', VBool False),
          (''expected'', VStr ex), (''actual'', VStr (py_strip actual))]"
    unfolding runtime_fault_def
    by (elim attempt_Raises_Done) auto
  then show ?thesis by (simp only: failure_resultI)
qed

text \<open>The path on which a result can report a success.\<close>

lemma run_entry_Done:
  assumes r: "run_entry call ex = Done d"
  shows "failure_result ex d
     \<or> (\<exists>result out err actual_output passed.
           returned call = Done result \<and> printed call = Done out \<and> diagnostics call = Done err
           \<and> py_strip err = []
           \<and> (if result \<noteq> PyNone then py_str result else Done (py_strip out)) = Done actual_output
           \<and> logged call = Done ()
           \<and> (case verdict call of
                 None \<Rightarrow> Done (VBool (compare_answers actual_output ex))
               | Some other \<Rightarrow> other) = Done passed
           \<and> d = [(''success'', VBool True), (''output'', VStr actual_output),
                  (''expected'', VStr ex), (''actual'', VStr actual_output),
                  (''error'', VNone), (''passed'', passed)])"
proof -
  note h = runtime_fault_Done
  from r show ?thesis
    unfolding run_entry_def Let_def
  proof (cases rule: attempt_Done)
    case (raised e)
    then show ?thesis using h by blast
  next
    case (finished result)
    from finished(2) show ?thesis
    proof (cases rule: attempt_Done)
      case (raised e)
      then show ?thesis using h by blast
    next
      case (finished out)
      note out = finished(1)
      from finished(2) show ?thesis
      proof (cases rule: attempt_Done)
        case (raised e)
        then show ?thesis using h by blast
      next
        case (finished err)
        note err = finished(1)
        show ?thesis
        proof (cases "py_strip err = []")
          case False
          with finished(2)
          have "attempt (if py_strip out \<noteq> [] then Done (py_strip out) else py_str result)
                  (runtime_fault call ex)
                  (\<lambda>actual. Done [(''success'', VBool False), (''output'', VStr (py_strip out)),
                     (''error'', VStr (py_strip err)), (''passed'', VBool False),
                     (''expected'', VStr ex), (''actual'', VStr actual)]) = Done d"
            by simp
          then have "failure_result ex d"
          proof (cases rule: attempt_Done)
            case (raised e)
            then show ?thesis using h by blast
          next
            case (finished actual)
            from finished(2) have "d = [(''success'', VBool False), (''output'', VStr (py_strip out)),
                     (''error'', VStr (py_strip err)), (''passed'', VBool False),
                     (''expected'', VStr ex), (''actual'', VStr actual)]" by simp
            then show ?thesis by (simp only: failure_resultI)
          qed
          then show ?thesis ..
        next
          case True
          with finished(2)
          have "attempt (if result \<noteq> PyNone then py_str result else Done (py_strip out))
                  (runtime_fault call ex)
                  (\<lambda>actual_output.
                     attempt (logged call) (runtime_fault call ex) (\<lambda>u.
                     attempt (case verdict call of
                                None \<Rightarrow> Done (VBool (compare_answers actual_output ex))
                              | Some other \<Rightarrow> other)
                       (runtime_fault call ex) (\<lambda>passed.
                         Done [(''success'', VBool True), (''output'', VStr actual_output),
                               (''expected'', VStr ex), (''actual'', VStr actual_output),
                               (''error'', VNone), (''passed'', passed)]))) = Done d"
            by simp
          then show ?thesis
          proof (cases rule: attempt_Done)
            case (raised e)
            then show ?thesis using h by blast
          next
            case (finished actual_output)
            note act = finished(1)
            from finished(2) show ?thesis
            proof (cases rule: attempt_Done)
              case (raised e)
              then show ?thesis using h by blast
            next
              case (finished u)
              note lg = finished(1)
              from finished(2) show ?thesis
              proof (cases rule: attempt_Done)
                case (raised e)
                then show ?thesis using h by blast
              next
                case (finished passed)
                from finished(2) have "d = [(''success'', VBool True), (''output'', VStr actual_output),
                               (''expected'', VStr ex), (''actual'', VStr actual_output),
                               (''error'', VNone), (''passed'', passed)]" by simp
                with \<open>returned call = Done result\<close> out err True act lg finished(1)
                show ?thesis by (intro disjI2 exI conjI) simp_all
              qed
            qed
          qed
        qed
      qed
    qed
  qed
qed

section \<open>The sandbox claims\<close>

lemma execute_python_Done:
  assumes p: "execute_python exec code ex = Done d"
  shows "failure_result ex d
     \<or> (\<exists>func_name safe_globals call.
           func_match code = Some func_name \<and> exec code = Done safe_globals
           \<and> safe_globals func_name = Done (Some call) \<and> run_entry call ex = Done d)"
proof (cases "func_match code")
  case None
  with p have "d = [(''success'', VBool False), (''output'', VStr []),
      (''error'', VStr ''Function must have NO parameters: def solution():''),
      (''passed'', VBool False), (''expected'', VStr ex), (''actual'', VStr [])]"
    by (auto simp: execute_python_def)
  then show ?thesis by (simp add: failure_resultI)
next
  case (Some func_name)
  with p have "attempt (exec code)
            (\<lambda>e. attempt (message e) Raises (\<lambda>error_msg.
                  attempt (spliced e) Raises (\<lambda>u.
                    Done [(''success'', VBool False),
                          (''output'', VStr []),
                          (''error'', VStr (''Code compilation error: '' @ error_msg)),
                          (''passed'', VBool False),
                          (''expected'', VStr ex),
                          (''actual'', VStr [])])))
            (\<lambda>safe_globals.
               attempt (safe_globals func_name) Raises (\<lambda>bound.
                 case bound of
                   None \<Rightarrow>
                     Done [(''success'', VBool False),
                           (''output'', VStr []),
                           (''error'', VStr (''Function '' @ [CHR 0x27] @ func_name @ [CHR 0x27]
                                             @ '' not found in code'')),
                           (''passed'', VBool False),
                           (''expected'', VStr ex),
                           (''actual'', VStr [])]
                 | Some call \<Rightarrow> run_entry call ex)) = Done d"
    by (simp only: execute_python_def option.case)
  then show ?thesis
  proof (cases rule: attempt_Done)
    case (raised e)
    from raised(2) obtain error_msg where
      "d = [(''success'', VBool False), (''output'', VStr []),
            (''error'', VStr (''Code compilation error: '' @ error_msg)),
            (''passed'', VBool False), (''expected'', VStr ex), (''actual'', VStr [])]"
      by (elim attempt_Raises_Done) auto
    then show ?thesis by (simp add: failure_resultI)
  next
    case (finished safe_globals)
    from finished(2) obtain bound where b: "safe_globals func_name = Done bound"
      and r: "(case bound of
                   None \<Rightarrow>
                     Done [(''success'', VBool False),
                           (''output'', VStr []),
                           (''error'', VStr (''Function '' @ [CHR 0x27] @ func_name @ [CHR 0x27]
                                             @ '' not found in code'')),
                           (''passed'', VBool False),
                           (''expected'', VStr ex),
                           (''actual'', VStr [])]
                 | Some call \<Rightarrow> run_entry call ex) = Done d"
      by (elim attempt_Raises_Done)
    show ?thesis
    proof (cases bound)
      case None
      with r have "d = [(''success'', VBool False), (''output'', VStr []),
            (''error'', VStr (''Function '' @ [CHR 0x27] @ func_name @ [CHR 0x27] @ '' not found in code'')),
            (''passed'', VBool False), (''expected'', VStr ex), (''actual'', VStr [])]"
        by auto
      then show ?thesis by (simp add: failure_resultI)
    next
      case (Some call)
      with r b \<open>func_match code = Some func_name\<close> finished(1) show ?thesis by auto
    qed
  qed
qed

lemma execute_code_no_input_Done:
  assumes x: "execute_code_no_input exec code ex language = Done d"
  shows "failure_result ex d
     \<or> (language = ''python'' \<and> execute_python exec code ex = Done d)"
  using x unfolding execute_code_no_input_def
proof (cases rule: attempt_Done)
  case (raised e)
  from raised(2) obtain error_msg where
    "d = [(''success'', VBool False), (''output'', VStr []), (''error'', VStr error_msg),
          (''passed'', VBool False), (''expected'', VStr ex), (''actual'', VStr [])]"
    by (elim attempt_Raises_Done) auto
  then show ?thesis by (simp add: failure_resultI)
next
  case (finished v)
  from finished(2) have dv: "v = d" by simp
  show ?thesis
  proof (cases "language = ''python''")
    case True
    with finished(1) dv show ?thesis by simp
  next
    case False
    with finished(1) dv have "\<exists>err. d = [(''success'', VBool False), (''output'', VStr []),
          (''error'', VStr err), (''passed'', VBool False), (''expected'', VStr ex),
          (''actual'', VStr [])]"
      by (auto split: if_splits)
    then obtain err where "d = [(''success'', VBool False), (''output'', VStr []),
          (''error'', VStr err), (''passed'', VBool False), (''expected'', VStr ex),
          (''actual'', VStr [])]" ..
    then show ?thesis by (simp add: failure_resultI)
  qed
qed

lemma executed_result:
  assumes x: "execute_code_no_input exec code ex language = Done d"
  shows "failure_result ex d
     \<or> (language = ''python''
         \<and> (\<exists>func_name safe_globals call result out err actual_output passed.
              func_match code = Some func_name \<and> exec code = Done safe_globals
              \<and> safe_globals func_name = Done (Some call)
              \<and> returned call = Done result \<and> printed call = Done out
              \<and> diagnostics call = Done err \<and> py_strip err = []
              \<and> d = [(''success'', VBool True), (''output'', VStr actual_output),
                     (''expected'', VStr ex), (''actual'', VStr actual_output),
                     (''error'', VNone), (''passed'', passed)]))"
proof -
  from execute_code_no_input_Done[OF x] show ?thesis
  proof
    assume "failure_result ex d"
    then show ?thesis ..
  next
    assume a: "language = ''python'' \<and> execute_python exec code ex = Done d"
    then have py: "language = ''python''" and p: "execute_python exec code ex = Done d" by simp_all
    from execute_python_Done[OF p] show ?thesis
    proof
      assume "failure_result ex d"
      then show ?thesis ..
    next
      assume "\<exists>func_name safe_globals call.
           func_match code = Some func_name \<and> exec code = Done safe_globals
           \<and> safe_globals func_name = Done (Some call) \<and> run_entry call ex = Done d"
      then obtain func_name safe_globals call where
        f: "func_match code = Some func_name" "exec code = Done safe_globals"
          "safe_globals func_name = Done (Some call)" and r: "run_entry call ex = Done d"
        by blast
      from run_entry_Done[OF r] show ?thesis
      proof
        assume "failure_result ex d"
        then show ?thesis ..
      next
        assume "\<exists>result out err actual_output passed.
           returned call = Done result \<and> printed call = Done out \<and> diagnostics call = Done err
           \<and> py_strip err = []
           \<and> (if result \<noteq> PyNone then py_str result else Done (py_strip out)) = Done actual_output
           \<and> logged call = Done ()
           \<and> (case verdict call of
                 None \<Rightarrow> Done (VBool (compare_answers actual_output ex))
               | Some other \<Rightarrow> other) = Done passed
           \<and> d = [(''success'', VBool True), (''output'', VStr actual_output),
                  (''expected'', VStr ex), (''actual'', VStr actual_output),
                  (''error'', VNone), (''passed'', passed)]"
        then obtain result out err actual_output passed where
          g: "returned call = Done result" "printed call = Done out" "diagnostics call = Done err"
             "py_strip err = []"
             "d = [(''success'', VBool True), (''output'', VStr actual_output),
                  (''expected'', VStr ex), (''actual'', VStr actual_output),
                  (''error'', VNone), (''passed'', passed)]"
          by blast
        have "\<exists>func_name safe_globals call result out err actual_output passed.
              func_match code = Some func_name \<and> exec code = Done safe_globals
              \<and> safe_globals func_name = Done (Some call)
              \<and> returned call = Done result \<and> printed call = Done out
              \<and> diagnostics call = Done err \<and> py_strip err = []
              \<and> d = [(''success'', VBool True), (''output'', VStr actual_output),
                     (''expected'', VStr ex), (''actual'', VStr actual_output),
                     (''error'', VNone), (''passed'', passed)]"
          using f g by (intro exI conjI)
        with py show ?thesis by (intro disjI2 conjI)
      qed
    qed
  qed
qed

text \<open>
  Claim C8. Every result that \<open>execute_code_no_input\<close> returns, on whichever path
  (malformed submission, compilation error, entry point missing, runtime fault,
  diagnostic text, a language that is not implemented, an exception that reaches the
  outer handler), holds the six keys \<open>success\<close>, \<open>output\<close>, \<open>error\<close>, \<open>passed\<close>,
  \<open>expected\<close> and \<open>actual\<close>, each once, with \<open>expected\<close> the expected answer it was
  given; and for every language other than \<open>python\<close> it does return such a result,
  one that reports a failure.
\<close>

theorem every_result_fully_populated:
  "(\<forall>d. execute_code_no_input exec code expected_answer language = Done d
          \<longrightarrow> fully_populated expected_answer d)
   \<and> (language \<noteq> ''python''
          \<longrightarrow> (\<exists>d. execute_code_no_input exec code expected_answer language = Done d
                    \<and> failure_result expected_answer d))"
proof (intro conjI allI impI)
  fix d
  assume x: "execute_code_no_input exec code expected_answer language = Done d"
  from executed_result[OF x] show "fully_populated expected_answer d"
  proof
    assume "failure_result expected_answer d"
    then show ?thesis by (rule failure_result_populated)
  next
    assume "language = ''python''
         \<and> (\<exists>func_name safe_globals call result out err actual_output passed.
              func_match code = Some func_name \<and> exec code = Done safe_globals
              \<and> safe_globals func_name = Done (Some call)
              \<and> returned call = Done result \<and> printed call = Done out
              \<and> diagnostics call = Done err \<and> py_strip err = []
              \<and> d = [(''success'', VBool True), (''output'', VStr actual_output),
                     (''expected'', VStr expected_answer), (''actual'', VStr actual_output),
                     (''error'', VNone), (''passed'', passed)])"
    then obtain actual_output passed where
      "d = [(''success'', VBool True), (''output'', VStr actual_output),
            (''expected'', VStr expected_answer), (''actual'', VStr actual_output),
            (''error'', VNone), (''passed'', passed)]"
      by blast
    then show ?thesis by (auto simp: fully_populated_def)
  qed
next
  assume "language \<noteq> ''python''"
  then show "\<exists>d. execute_code_no_input exec code expected_answer language = Done d
                    \<and> failure_result expected_answer d"
    by (auto simp: execute_code_no_input_def failure_resultI)
qed


theorem every_result_fully_populated_witness:
  "execute_code_no_input
     (broken_interpreter (Exc (Raises (plain_error ''unprintable'')) (Done ()) (Done ())))
     ''def solution(): return 1'' ''42'' ''python''
   = Done [(''success'', VBool False), (''output'', VStr []), (''error'', VStr ''unprintable''),
           (''passed'', VBool False), (''expected'', VStr ''42''), (''actual'', VStr [])]
   \<and> fully_populated ''42''
        [(''success'', VBool False), (''output'', VStr []), (''error'', VStr ''unprintable''),
         (''passed'', VBool False), (''expected'', VStr ''42''), (''actual'', VStr [])]
   \<and> (\<exists>d. execute_code_no_input stuck_interpreter ''public class Solution {}'' ''42'' ''java''
            = Done d \<and> failure_result ''42'' d)"
proof -
  let ?d = "[(''success'', VBool False), (''output'', VStr []), (''error'', VStr ''unprintable''),
           (''passed'', VBool False), (''expected'', VStr ''42''), (''actual'', VStr [])]"
  have run: "execute_code_no_input
     (broken_interpreter (Exc (Raises (plain_error ''unprintable'')) (Done ()) (Done ())))
     ''def solution(): return 1'' ''42'' ''python'' = Done ?d"
    by code_simp
  have j: "''java'' \<noteq> ''python''" by simp
  note t = every_result_fully_populated[where expected_answer = "''42''"]
  from t[THEN conjunct1, rule_format, OF run] t[THEN conjunct2, rule_format, OF j] run
  show ?thesis by (intro conjI)
qed

lemma func_match_Some_first: "func_match code = Some name \<Longrightarrow> \<exists>i. first_def_shape code i name"
proof (induction code)
  case Nil
  then show ?case by simp
next
  case (Cons c cs)
  show ?case
  proof (cases "match_def_at (c # cs)")
    case (Some n)
    with Cons.prems have "n = name" by simp
    with Some have "def_shape (drop 0 (c # cs)) name" by (simp add: match_def_at_iff)
    then have "first_def_shape (c # cs) 0 name" by (simp add: first_def_shape_def)
    then show ?thesis ..
  next
    case None
    with Cons.prems have "func_match cs = Some name" by simp
    then obtain j where j: "first_def_shape cs j name" using Cons.IH by blast
    have none0: "\<not> def_shape (c # cs) n" for n
      using None match_def_at_iff by (metis option.distinct(1))
    have "\<not> (\<exists>k n. k < Suc j \<and> def_shape (drop k (c # cs)) n)"
    proof
      assume "\<exists>k n. k < Suc j \<and> def_shape (drop k (c # cs)) n"
      then obtain k n where k: "k < Suc j" "def_shape (drop k (c # cs)) n" by blast
      show False
      proof (cases k)
        case 0
        with k none0 show False by simp
      next
        case (Suc k')
        with k have "k' < j" "def_shape (drop k' cs) n" by auto
        with j show False unfolding first_def_shape_def by blast
      qed
    qed
    with j have "first_def_shape (c # cs) (Suc j) name" by (simp add: first_def_shape_def)
    then show ?thesis ..
  qed
qed

lemma execute_code_python:
  "execute_python exec code ex = Done d \<Longrightarrow> execute_code_no_input exec code ex ''python'' = Done d"
  by (simp add: execute_code_no_input_def)

text \<open>
  Claim C6. A code string with no occurrence of the shape \<open>def name()\<close> gets, for the
  language \<open>python\<close>, the result with \<open>success\<close> and \<open>passed\<close> false and the error
  that names the missing shape. The result is the same for every interpreter, also one
  that never finishes: nothing of the submission is executed.
\<close>

theorem no_entry_point_fails_fast:
  "\<not> has_def_shape code \<Longrightarrow>
   execute_code_no_input exec code expected_answer ''python'' =
     Done [(''success'', VBool False),
           (''output'', VStr []),
           (''error'', VStr ''Function must have NO parameters: def solution():''),
           (''passed'', VBool False),
           (''expected'', VStr expected_answer),
           (''actual'', VStr [])]"
  by (simp add: execute_code_no_input_def execute_python_def func_match_None_iff[symmetric])

theorem no_entry_point_fails_fast_witness:
  "\<not> has_def_shape ''def solution(n): return n * 2''
   \<and> execute_code_no_input stuck_interpreter ''def solution(n): return n * 2'' ''4'' ''python'' =
     Done [(''success'', VBool False),
           (''output'', VStr []),
           (''error'', VStr ''Function must have NO parameters: def solution():''),
           (''passed'', VBool False),
           (''expected'', VStr ''4''),
           (''actual'', VStr [])]"
proof -
  have "func_match ''def solution(n): return n * 2'' = None" by code_simp
  then have h: "\<not> has_def_shape ''def solution(n): return n * 2''"
    by (rule func_match_None_iff[THEN iffD1])
  show ?thesis using h no_entry_point_fails_fast[OF h] by simp
qed

lemma run_entry_ordinary:
  "run_entry (ordinary_call out [] (PyObj (Done rendering))) ex =
     Done [(''success'', VBool True), (''output'', VStr rendering), (''expected'', VStr ex),
           (''actual'', VStr rendering), (''error'', VNone),
           (''passed'', VBool (compare_answers rendering ex))]"
proof -
  have "py_strip [] = []" by (simp add: py_strip_def strip_with_def)
  then show ?thesis
    by (simp add: run_entry_def ordinary_call_def Let_def py_str_def)
qed

lemma run_entry_faulting:
  "run_entry (faulting_call out err (plain_error msg)) ex =
     Done [(''success'', VBool False), (''output'', VStr (py_strip out)),
           (''error'', VStr (''Runtime error: '' @ msg)), (''passed'', VBool False),
           (''expected'', VStr ex), (''actual'', VStr (py_strip out))]"
  by (simp add: run_entry_def faulting_call_def Let_def runtime_fault_def plain_error_def)

text \<open>
  Claim C10, as amended. The entry point is the name in the first occurrence of the
  shape \<open>def name()\<close> in the text of the submission, whatever the name, whether or not
  that occurrence is a function definition, and however many functions the text
  defines. That name is the one looked up in the namespace left by \<open>exec\<close>: when it is
  not bound the result is the error that names it, and when it is bound the object
  bound to it is the one called, so that the result reports the value that this object
  returns, or the exception that it raises.
\<close>

theorem first_def_is_entry_point:
  assumes "first_def_shape code i name" and "exec code = Done safe_globals"
  shows "func_match code = Some name
     \<and> (safe_globals name = Done None \<longrightarrow>
          execute_code_no_input exec code expected_answer ''python'' =
            Done [(''success'', VBool False),
                  (''output'', VStr []),
                  (''error'', VStr (''Function '' @ [CHR 0x27] @ name @ [CHR 0x27] @ '' not found in code'')),
                  (''passed'', VBool False),
                  (''expected'', VStr expected_answer),
                  (''actual'', VStr [])])
     \<and> (\<forall>out rendering.
          safe_globals name = Done (Some (ordinary_call out [] (PyObj (Done rendering)))) \<longrightarrow>
          execute_code_no_input exec code expected_answer ''python'' =
            Done [(''success'', VBool True),
                  (''output'', VStr rendering),
                  (''expected'', VStr expected_answer),
                  (''actual'', VStr rendering),
                  (''error'', VNone),
                  (''passed'', VBool (compare_answers rendering expected_answer))])
     \<and> (\<forall>out err msg.
          safe_globals name = Done (Some (faulting_call out err (plain_error msg))) \<longrightarrow>
          execute_code_no_input exec code expected_answer ''python'' =
            Done [(''success'', VBool False),
                  (''output'', VStr (py_strip out)),
                  (''error'', VStr (''Runtime error: '' @ msg)),
                  (''passed'', VBool False),
                  (''expected'', VStr expected_answer),
                  (''actual'', VStr (py_strip out))])"
proof -
  have fm: "func_match code = Some name" by (rule func_match_first[OF assms(1)])
  have py: "execute_python exec code expected_answer =
      attempt (safe_globals name) Raises (\<lambda>bound.
                 case bound of
                   None \<Rightarrow>
                     Done [(''success'', VBool False),
                           (''output'', VStr []),
                           (''error'', VStr (''Function '' @ [CHR 0x27] @ name @ [CHR 0x27]
                                             @ '' not found in code'')),
                           (''passed'', VBool False),
                           (''expected'', VStr expected_answer),
                           (''actual'', VStr [])]
                 | Some call \<Rightarrow> run_entry call expected_answer)"
    by (simp only: execute_python_def fm assms(2) option.case attempt_simps)
  show ?thesis
  proof (intro conjI allI impI)
    show "func_match code = Some name" by (rule fm)
  next
    assume "safe_globals name = Done None"
    then show "execute_code_no_input exec code expected_answer ''python'' =
            Done [(''success'', VBool False),
                  (''output'', VStr []),
                  (''error'', VStr (''Function '' @ [CHR 0x27] @ name @ [CHR 0x27] @ '' not found in code'')),
                  (''passed'', VBool False),
                  (''expected'', VStr expected_answer),
                  (''actual'', VStr [])]"
      by (intro execute_code_python) (simp add: py)
  next
    fix out rendering
    assume "safe_globals name = Done (Some (ordinary_call out [] (PyObj (Done rendering))))"
    then show "execute_code_no_input exec code expected_answer ''python'' =
            Done [(''success'', VBool True),
                  (''output'', VStr rendering),
                  (''expected'', VStr expected_answer),
                  (''actual'', VStr rendering),
                  (''error'', VNone),
                  (''passed'', VBool (compare_answers rendering expected_answer))]"
      by (intro execute_code_python) (simp add: py run_entry_ordinary)
  next
    fix out err msg
    assume "safe_globals name = Done (Some (faulting_call out err (plain_error msg)))"
    then show "execute_code_no_input exec code expected_answer ''python'' =
            Done [(''success'', VBool False),
                  (''output'', VStr (py_strip out)),
                  (''error'', VStr (''Runtime error: '' @ msg)),
                  (''passed'', VBool False),
                  (''expected'', VStr expected_answer),
                  (''actual'', VStr (py_strip out))]"
      by (intro execute_code_python) (simp add: py run_entry_faulting)
  qed
qed


theorem first_def_is_entry_point_witness:
  "func_match ''def helper(n): return n\<newline>def second(): return 2\<newline>def solution(): return 1''
     = Some ''second''
   \<and> execute_code_no_input
        (bound_interpreter
           [(''helper'', faulting_call [] [] (plain_error ''missing 1 required positional argument'')),
            (''second'', ordinary_call [] [] (PyObj (Done ''2''))),
            (''solution'', ordinary_call [] [] (PyObj (Done ''1'')))])
        ''def helper(n): return n\<newline>def second(): return 2\<newline>def solution(): return 1''
        ''2'' ''python''
      = Done [(''success'', VBool True), (''output'', VStr ''2''), (''expected'', VStr ''2''),
              (''actual'', VStr ''2''), (''error'', VNone), (''passed'', VBool True)]"
proof -
  let ?code = "''def helper(n): return n\<newline>def second(): return 2\<newline>def solution(): return 1''"
  let ?bindings = "[(''helper'', faulting_call [] [] (plain_error ''missing 1 required positional argument'')),
            (''second'', ordinary_call [] [] (PyObj (Done ''2''))),
            (''solution'', ordinary_call [] [] (PyObj (Done ''1'')))]"
  have fm: "func_match ?code = Some ''second''" by code_simp
  then obtain i where first: "first_def_shape ?code i ''second''"
    using func_match_Some_first by blast
  have run: "bound_interpreter ?bindings ?code = Done (\<lambda>name. Done (map_of ?bindings name))"
    by (simp add: bound_interpreter_def)
  have b: "(\<lambda>name. Done (map_of ?bindings name)) ''second''
      = Done (Some (ordinary_call [] [] (PyObj (Done ''2''))))"
    by simp
  have c: "compare_answers ''2'' ''2''" by code_simp
  note t = first_def_is_entry_point[where exec = "bound_interpreter ?bindings"
        and expected_answer = "''2''", OF first run]
  from t[THEN conjunct2, THEN conjunct2, THEN conjunct1, rule_format, OF b] c fm
  show ?thesis by simp
qed

theorem commented_def_is_entry_point:
  "func_match ''# def old(): return 0\<newline>def solution(): return 1'' = Some ''old''
   \<and> execute_code_no_input
        (bound_interpreter [(''solution'', ordinary_call [] [] (PyObj (Done ''1'')))])
        ''# def old(): return 0\<newline>def solution(): return 1'' ''1'' ''python''
      = Done [(''success'', VBool False), (''output'', VStr []),
              (''error'', VStr (''Function '' @ [CHR 0x27] @ ''old'' @ [CHR 0x27] @ '' not found in code'')),
              (''passed'', VBool False), (''expected'', VStr ''1''), (''actual'', VStr [])]"
  by code_simp










section \<open>The comparator claim\<close>





section \<open>The validator claims\<close>

lemma py_split_not_Nil: "py_split sep s \<noteq> []"
  by (induction s) (auto split: list.splits)

lemma those_length: "those xs = Some ys \<Longrightarrow> length ys = length xs"
  by (induction xs arbitrary: ys) (auto split: option.splits)




















lemma round_half_even_of_int: "round_half_even (of_int z) = z"
  by (simp add: round_half_even_def)

lemma bitlen_one: "bitlen 1 = 1"
  by (simp add: bitlen_def floorlog_def)

lemma ilog2_of_int:
  assumes "0 < k"
  shows "ilog2 (of_int k) = bitlen k - 1"
proof -
  have b: "1 \<le> bitlen k" using assms by (simp add: bitlen_alt_def)
  from bitlen_bounds[OF assms] have "2 ^ nat (bitlen k - 1) \<le> k" by simp
  then have "(of_int (2 ^ nat (bitlen k - 1)) :: rat) \<le> of_int k" by (simp only: of_int_le_iff)
  then have "(2::rat) powi (bitlen k - 1) \<le> of_int k"
    using b by (simp add: power_int_def)
  then show ?thesis by (simp add: ilog2_def bitlen_one)
qed

lemma bitlen_small:
  assumes "0 < k" "k < 2 ^ 53"
  shows "bitlen k \<le> 53"
proof -
  from bitlen_bounds[OF assms(1)] have "(2::int) ^ nat (bitlen k - 1) \<le> k" by simp
  with assms(2) have "(2::int) ^ nat (bitlen k - 1) < 2 ^ 53" by simp
  then have "nat (bitlen k - 1) < 53"
    using power_less_imp_less_exp[of "2::int" "nat (bitlen k - 1)" 53] by simp
  then show ?thesis by simp
qed

lemma round_double_small_int:
  assumes "0 < k" "k < 2 ^ 53"
  shows "round_double (of_int k) = Finite (of_int k)"
proof -
  define d where "d = bitlen k - 1"
  have d0: "0 \<le> d" using assms(1) by (simp add: d_def bitlen_alt_def)
  have d52: "d \<le> 52" using bitlen_small[OF assms] by (simp add: d_def)
  define s where "s = nat (52 - d)"
  have u: "(2::rat) powi (d - 52) = inverse (2 ^ s)"
    using d52 by (cases "d = 52") (simp_all add: power_int_def s_def power_one_over inverse_eq_divide)
  have q: "(of_int k :: rat) / inverse (2 ^ s) = of_int (k * 2 ^ s)" by (simp add: field_simps)
  have m: "round_half_even ((of_int k :: rat) / inverse (2 ^ s)) = k * 2 ^ s"
    unfolding q by (rule round_half_even_of_int)
  have bk: "(of_int (k * 2 ^ s) :: rat) * inverse (2 ^ s) = of_int k" by (simp add: field_simps)
  have e: "max (ilog2 (of_int k :: rat)) (- 1022) = d"
    using d0 by (simp add: ilog2_of_int[OF assms(1)] d_def)
  have k0: "(of_int k :: rat) \<noteq> 0" "\<bar>of_int k :: rat\<bar> = of_int k" "\<not> (of_int k :: rat) < 0"
    using assms(1) by simp_all
  show ?thesis
    using d52 assms(1) by (simp add: round_double_def Let_def k0 e u m bk del: of_int_mult of_int_power)
qed

lemma parse_floats_not_Nil: "parse_floats s = Some numbers \<Longrightarrow> numbers \<noteq> []"
  using those_length[of "map (\<lambda>x. py_float (py_strip x)) (py_split CHR '','' s)" numbers]
    py_split_not_Nil[of "CHR '',''" s]
  by (auto simp: parse_floats_def)

lemma average_answer_mean:
  assumes "numbers \<noteq> []" "length numbers < 2 ^ 53"
  shows "average_answer p numbers
     = Some (format_2f (fdiv_finite (sum_floats p numbers) (of_nat (length numbers))))"
proof -
  have pos: "0 < int (length numbers)" using assms(1) by simp
  have "int (length numbers) < int (2 ^ 53)" using assms(2) by (simp only: of_nat_less_iff)
  then have small: "int (length numbers) < 2 ^ 53" by simp
  have "round_double (of_int (int (length numbers))) = Finite (of_int (int (length numbers)))"
    using pos small by (rule round_double_small_int)
  then show ?thesis using assms(1) by (simp add: average_answer_def)
qed

lemma average_recomputed:
  assumes "get_or_empty problem_data ''description'' = description"
      and "py_in ''average'' (py_lower description) \<or> py_in ''mean'' (py_lower description)"
      and "first_bracket list_char description = Some numbers_text"
      and "parse_floats (remove_char CHR '' '' numbers_text) = Some numbers"
      and "length numbers < 2 ^ 53"
      and "correct_answer = format_2f (fdiv_finite (sum_floats p numbers) (of_nat (length numbers)))"
      and "py_float correct_answer = Some recomputed"
  shows "(\<forall>claimed. py_float (get_or_empty problem_data ''expected_answer'') = Some claimed \<longrightarrow>
            validate_and_fix_problem p problem_data =
              (if flt (round_double (1 / 100)) (fabs (fsub recomputed claimed))
               then problem_data(''expected_answer'' \<mapsto> correct_answer)
               else problem_data))
     \<and> (py_float (get_or_empty problem_data ''expected_answer'') = None \<longrightarrow>
            validate_and_fix_problem p problem_data = problem_data)"
proof -
  have a: "average_answer p numbers = Some correct_answer"
    using average_answer_mean[OF parse_floats_not_Nil[OF assms(4)] assms(5)] assms(6) by simp
  show ?thesis
    using assms(1-4) a assms(7)
    by (auto simp add: validate_and_fix_problem_def Let_def exceeds_tolerance_def)
qed

text \<open>
  Claim C4, as amended. For a problem whose description, in lower case, mentions
  "average" or "mean" and whose first bracketed run of digits, dots, commas and
  whitespace parses as a list of floats, the mean is \<open>sum(numbers) / len(numbers)\<close> in
  floating point, formatted to two decimals. When the claimed answer parses as a float
  and the formatted mean, read back as a float, differs from it by more than 0.01, the
  formatted mean replaces the expected answer; when the difference is at most 0.01, or
  the claimed answer is not a number, the problem is returned as it is. For "average of
  [1,2,3,4]" with the claimed answer "3" the expected answer becomes "2.50".
\<close>

theorem average_is_recomputed:
  assumes "get_or_empty problem_data ''description'' = description"
      and "py_in ''average'' (py_lower description) \<or> py_in ''mean'' (py_lower description)"
      and "first_bracket list_char description = Some numbers_text"
      and "parse_floats (remove_char CHR '' '' numbers_text) = Some numbers"
      and "length numbers < 2 ^ 53"
      and "correct_answer = format_2f (fdiv_finite (sum_floats p numbers) (of_nat (length numbers)))"
      and "py_float correct_answer = Some recomputed"
  shows "(\<forall>claimed. py_float (get_or_empty problem_data ''expected_answer'') = Some claimed \<longrightarrow>
            validate_and_fix_problem p problem_data =
              (if flt (round_double (1 / 100)) (fabs (fsub recomputed claimed))
               then problem_data(''expected_answer'' \<mapsto> correct_answer)
               else problem_data))
     \<and> (py_float (get_or_empty problem_data ''expected_answer'') = None \<longrightarrow>
            validate_and_fix_problem p problem_data = problem_data)
     \<and> validate_and_fix_problem reference_platform
          [''description'' \<mapsto> ''average of [1,2,3,4]'', ''expected_answer'' \<mapsto> ''3'']
          ''expected_answer'' = Some ''2.50''"
proof -
  have "validate_and_fix_problem reference_platform
          [''description'' \<mapsto> ''average of [1,2,3,4]'', ''expected_answer'' \<mapsto> ''3'']
          ''expected_answer'' = Some ''2.50''"
    by code_simp
  with average_recomputed[OF assms] show ?thesis by (intro conjI) simp_all
qed

theorem average_is_recomputed_witness:
  "validate_and_fix_problem reference_platform
     [''description'' \<mapsto> ''What is the mean of [0.5, 1.5, 2.5]?'', ''expected_answer'' \<mapsto> ''2'']
   = [''description'' \<mapsto> ''What is the mean of [0.5, 1.5, 2.5]?'', ''expected_answer'' \<mapsto> ''2'']
       (''expected_answer'' \<mapsto> ''1.50'')"
proof -
  let ?desc = "''What is the mean of [0.5, 1.5, 2.5]?''"
  let ?pd = "[''description'' \<mapsto> ?desc, ''expected_answer'' \<mapsto> ''2'']"
  let ?numbers = "[Finite (1 / 2), Finite (3 / 2), Finite (5 / 2)]"
  have h1: "get_or_empty ?pd ''description'' = ?desc" by (simp add: get_or_empty_def)
  have h2: "py_in ''average'' (py_lower ?desc) \<or> py_in ''mean'' (py_lower ?desc)" by code_simp
  have h3: "first_bracket list_char ?desc = Some ''0.5, 1.5, 2.5''" by code_simp
  have h4: "parse_floats (remove_char CHR '' '' ''0.5, 1.5, 2.5'') = Some ?numbers" by code_simp
  have h5: "length ?numbers < 2 ^ 53" by simp
  have h6: "''1.50'' = format_2f (fdiv_finite (sum_floats reference_platform ?numbers)
                                   (of_nat (length ?numbers)))"
    by code_simp
  have h7: "py_float ''1.50'' = Some (Finite (3 / 2))" by code_simp
  have e: "get_or_empty ?pd ''expected_answer'' = ''2''" by (simp add: get_or_empty_def)
  have c: "py_float ''2'' = Some (Finite 2)" by code_simp
  have f: "flt (round_double (1 / 100)) (fabs (fsub (Finite (3 / 2)) (Finite 2)))" by code_simp
  from average_is_recomputed[OF h1 h2 h3 h4 h5 h6 h7, THEN conjunct1, rule_format, of "Finite 2"] e c f
  show ?thesis by simp
qed

theorem average_needs_a_plain_list_and_a_gap:
  "first_bracket list_char ''average of [-1, 2, 3]'' = None
   \<and> validate_and_fix_problem reference_platform
        [''description'' \<mapsto> ''average of [-1, 2, 3]'', ''expected_answer'' \<mapsto> ''5'']
        ''expected_answer'' = Some ''5''
   \<and> validate_and_fix_problem reference_platform
        [''description'' \<mapsto> ''average of [1,2,3,4]'', ''expected_answer'' \<mapsto> ''2.5'']
        ''expected_answer'' = Some ''2.5''
   \<and> ''2.5'' \<noteq> ''2.50''
   \<and> validate_and_fix_problem reference_platform
        [''description'' \<mapsto> ''average of [1,2,3,4]'', ''expected_answer'' \<mapsto> ''two and a half'']
        ''expected_answer'' = Some ''two and a half''"
  by code_simp

end
